theory Spec2Isabelle
  imports Main
begin

section \<open>Values, exceptions and observable events\<close>

text \<open>
  The authentication routes of \<^verbatim>\<open>server/app/routes/auth.py\<close> and the client factory of
  \<^verbatim>\<open>server/app/utils/supabase.py\<close>. A user identifier is opaque; a token is a string.
\<close>

type_synonym uid = nat
type_synonym token = string

datatype token_kind = Access | Refresh

text \<open>
  Every exception a handler can leave with. \<open>HTTPException\<close> carries status code and
  detail. \<open>NotAContextManager\<close> is what the \<^verbatim>\<open>with\<close> statement raises for an object
  without \<^verbatim>\<open>__enter__\<close>/\<^verbatim>\<open>__exit__\<close> (a \<^verbatim>\<open>TypeError\<close>: "object does not support the
  context manager protocol"; an \<^verbatim>\<open>AttributeError\<close> before Python 3.11).
  \<open>HTTPStatusError\<close> and \<open>RequestError\<close> are httpx's, \<open>ValueError\<close> is what
  \<^verbatim>\<open>verify_oauth2_token\<close> raises, the last three are the token codec's.
\<close>

datatype exn =
    HTTPException nat string
  | NotAContextManager
  | NameError string
  | AttributeError string
  | IndexError
  | KeyError string
  | HTTPStatusError nat
  | RequestError
  | JSONDecodeError
  | ValueError
  | UnknownDatabaseProvider string
  | InvalidToken
  | ExpiredToken
  | MalformedToken

text \<open>
  A trace of what a request did to the outside world, kept beside the state so that
  "no record was looked up" and "no token was minted" can be stated.
\<close>

datatype event =
    ClientCreated
  | ClientReleased
  | HttpPost string
  | AssertionVerified string
  | StoreRead string
  | StoreInsert uid
  | StoreTouch uid
  | Minted token_kind uid

section \<open>The user table and the world a request runs in\<close>

record user_record =
  user_uid :: uid
  email :: string
  username :: string
  password_hash :: "string option"
  auth_provider :: string
  avatar :: "string option"
  last_active :: nat

record world =
  users :: "user_record list"
  clock :: nat
  trace :: "event list"

type_synonym 'a io = "world \<Rightarrow> (exn + 'a) \<times> world"

definition io_return :: "'a \<Rightarrow> 'a io" where
  "io_return x w = (Inr x, w)"

definition io_raise :: "exn \<Rightarrow> 'a io" where
  "io_raise e w = (Inl e, w)"

definition io_bind :: "'a io \<Rightarrow> ('a \<Rightarrow> 'b io) \<Rightarrow> 'b io" where
  "io_bind m f w = (case m w of (Inl e, w1) \<Rightarrow> (Inl e, w1) | (Inr x, w1) \<Rightarrow> f x w1)"

definition emit :: "event \<Rightarrow> unit io" where
  "emit ev w = (Inr (), w\<lparr>trace := trace w @ [ev]\<rparr>)"

section \<open>Configuration and external collaborators\<close>

datatype jwt_failure = BadSignature | NotAToken

datatype http_outcome =
    ConnectionFailed
  | Response nat "(string \<times> string) list option"

text \<open>
  What the source imports from \<^verbatim>\<open>app.config\<close> and from third-party libraries enters as a
  parameter: the configured constants, the JWT library (signing key already applied), the
  password hash and its comparison, Google's token endpoint reached through httpx, and
  \<^verbatim>\<open>google.oauth2.id_token.verify_oauth2_token\<close> (token, then audience).
\<close>

record env =
  SUPABASE_URL :: string
  SUPABASE_KEY :: string
  GOOGLE_OAUTH_CLIENT_ID :: string
  GOOGLE_OAUTH_CLIENT_SECRET :: string
  ACCESS_TTL :: nat
  REFRESH_TTL :: nat
  jwt_encode :: "(string \<times> nat) list \<Rightarrow> token"
  jwt_decode :: "token \<Rightarrow> jwt_failure + (string \<times> nat) list"
  hash_password :: "string \<Rightarrow> string"
  verify_password :: "string \<Rightarrow> string option \<Rightarrow> bool"
  http_post :: "string \<Rightarrow> (string \<times> string) list \<Rightarrow> http_outcome"
  verify_oauth2_token :: "string \<Rightarrow> string \<Rightarrow> exn + (string \<times> string) list"

section \<open>The with statement and the client factory\<close>

datatype client = Client string string

text \<open>
  An object a \<^verbatim>\<open>with\<close> statement can be given. A context manager has \<^verbatim>\<open>__enter__\<close> and
  \<^verbatim>\<open>__exit__\<close>. A generator object, what calling a function whose body contains \<^verbatim>\<open>yield\<close>
  returns, has neither: it holds its code up to the \<^verbatim>\<open>yield\<close> and its \<^verbatim>\<open>finally\<close> clause,
  not yet started.
\<close>

datatype 'c manager =
    ContextManager "'c io" "unit io"
  | GeneratorObject "'c io" "unit io"

text \<open>
  \<^verbatim>\<open>with mgr as c: block\<close>. The protocol is looked up first; without it the statement raises
  and neither the object's code nor the block runs. With it: enter, run the block, exit on
  both outcomes of the block.
\<close>

definition with_stmt :: "'c manager \<Rightarrow> ('c \<Rightarrow> 'a io) \<Rightarrow> 'a io" where
  "with_stmt mgr block w =
     (case mgr of
        GeneratorObject body fin \<Rightarrow> (Inl NotAContextManager, w)
      | ContextManager enter exit \<Rightarrow>
          (case enter w of
             (Inl e, w1) \<Rightarrow> (Inl e, w1)
           | (Inr c, w1) \<Rightarrow>
               (case block c w1 of
                  (r, w2) \<Rightarrow>
                    (case exit w2 of
                       (Inl e, w3) \<Rightarrow> (Inl e, w3)
                     | (Inr u, w3) \<Rightarrow> (r, w3)))))"

text \<open>
  \<^verbatim>\<open>supabase_client\<close> (supabase.py, lines 6 to 11) is a plain function with a \<^verbatim>\<open>yield\<close>; the
  module imports only \<^verbatim>\<open>create_client\<close> and the two constants, and the function carries no
  decorator. A call therefore returns a generator object and runs nothing. Its code up to
  the \<^verbatim>\<open>yield\<close> is \<^verbatim>\<open>client = create_client(SUPABASE_URL, SUPABASE_KEY)\<close>; its \<^verbatim>\<open>finally\<close>
  clause is \<^verbatim>\<open>pass\<close>.
\<close>

definition supabase_client :: "env \<Rightarrow> client manager" where
  "supabase_client E =
     GeneratorObject
       (io_bind (emit ClientCreated) (\<lambda>u. io_return (Client (SUPABASE_URL E) (SUPABASE_KEY E))))
       (io_return ())"

text \<open>
  The clients a stretch of events leaves open: those created in it and not released in it.
\<close>

definition left_open :: "event list \<Rightarrow> nat" where
  "left_open evs = count_list evs ClientCreated - count_list evs ClientReleased"

section \<open>Module initialisation\<close>

datatype db = SupabaseTable client

record route =
  http_verb :: string
  path :: string
  status_code :: nat
  endpoint :: string

text \<open>
  The module's global names that its top-level statements bind; \<open>None\<close> is a name not
  bound yet.
\<close>

record namespace =
  db_client :: "(env \<Rightarrow> client manager) option"
  db_handler :: "(client \<Rightarrow> db) option"
  router :: "route list option"

definition empty_namespace :: namespace where
  "empty_namespace = \<lparr>db_client = None, db_handler = None, router = None\<rparr>"

type_synonym stmt = "namespace \<Rightarrow> (exn + unit) \<times> namespace"

definition stmt_seq :: "stmt \<Rightarrow> stmt \<Rightarrow> stmt" where
  "stmt_seq s1 s2 ns = (case s1 ns of (Inl e, ns1) \<Rightarrow> (Inl e, ns1) | (Inr u, ns1) \<Rightarrow> s2 ns1)"

text \<open>An f-string renders \<^verbatim>\<open>None\<close> as "None" and a string as itself.\<close>

definition format_value :: "string option \<Rightarrow> string" where
  "format_value v = (case v of None \<Rightarrow> ''None'' | Some s \<Rightarrow> s)"

text \<open>Lines 28 to 33: \<^verbatim>\<open>match DATABASE_PROVIDER\<close>.\<close>

definition match_database_provider :: "string option \<Rightarrow> stmt" where
  "match_database_provider DATABASE_PROVIDER ns =
     (if DATABASE_PROVIDER = Some ''supabase''
      then (Inr (), ns\<lparr>db_client := Some supabase_client, db_handler := Some SupabaseTable\<rparr>)
      else (Inl (UnknownDatabaseProvider
                   (''Unknown database provider: '' @ format_value DATABASE_PROVIDER)), ns))"

text \<open>Line 35: \<^verbatim>\<open>router = APIRouter()\<close>.\<close>

definition create_router :: stmt where
  "create_router ns = (Inr (), ns\<lparr>router := Some []\<rparr>)"

text \<open>A \<^verbatim>\<open>@router.post(...)\<close> decorator above a handler: the route is added to the router.\<close>

definition router_post :: "string \<Rightarrow> nat \<Rightarrow> string \<Rightarrow> stmt" where
  "router_post p success name ns =
     (case router ns of
        None \<Rightarrow> (Inl (NameError ''router''), ns)
      | Some rs \<Rightarrow>
          (Inr (), ns\<lparr>router := Some (rs @ [\<lparr>http_verb = ''POST'', path = p,
                                               status_code = success, endpoint = name\<rparr>])\<rparr>))"

text \<open>
  The module body in source order. The two routes without \<^verbatim>\<open>status_code\<close> get the
  framework's default, 200.
\<close>

definition auth_module_body :: "string option \<Rightarrow> stmt" where
  "auth_module_body DATABASE_PROVIDER =
     stmt_seq (match_database_provider DATABASE_PROVIDER)
    (stmt_seq create_router
    (stmt_seq (router_post ''/signup'' 201 ''signup'')
    (stmt_seq (router_post ''/login'' 200 ''login'')
    (stmt_seq (router_post ''/google'' 201 ''continue_with_google'')
    (stmt_seq (router_post ''/verify-token'' 200 ''verify_token'')
              (router_post ''/refresh-token/'' 200 ''refresh_token''))))))"

definition import_auth_module :: "string option \<Rightarrow> (exn + unit) \<times> namespace" where
  "import_auth_module DATABASE_PROVIDER = auth_module_body DATABASE_PROVIDER empty_namespace"

text \<open>The module's names once the import has succeeded.\<close>

definition initialised :: namespace where
  "initialised = snd (import_auth_module (Some ''supabase''))"

section \<open>Token codec\<close>

text \<open>
  Modelled from the spec: \<^verbatim>\<open>app/utils/auth.py\<close> (\<^verbatim>\<open>create_access_token\<close>,
  \<^verbatim>\<open>create_refresh_token\<close>, \<^verbatim>\<open>validate_token\<close>) is not in src/. After section 4.1 of
  the spec: a token is a signed credential embedding the user identifier and an expiry
  (short for an access token, long for a refresh token); validation checks structure,
  signature and expiry and fails with \<open>MalformedToken\<close>, \<open>InvalidToken\<close> or
  \<open>ExpiredToken\<close>; a token is expired once the clock is past its expiry. Signing and
  signature checking are the JWT library's, a parameter. The codec does not tell access
  tokens from refresh tokens.
\<close>

definition token_payload :: "uid \<Rightarrow> nat \<Rightarrow> (string \<times> nat) list" where
  "token_payload u expiry = [(''user_uid'', u), (''exp'', expiry)]"

definition create_access_token :: "env \<Rightarrow> uid \<Rightarrow> token io" where
  "create_access_token E u w =
     (Inr (jwt_encode E (token_payload u (clock w + ACCESS_TTL E))),
      w\<lparr>trace := trace w @ [Minted Access u]\<rparr>)"

definition create_refresh_token :: "env \<Rightarrow> uid \<Rightarrow> token io" where
  "create_refresh_token E u w =
     (Inr (jwt_encode E (token_payload u (clock w + REFRESH_TTL E))),
      w\<lparr>trace := trace w @ [Minted Refresh u]\<rparr>)"

definition validate_token :: "env \<Rightarrow> token \<Rightarrow> (string \<times> nat) list io" where
  "validate_token E tok w =
     (case jwt_decode E tok of
        Inl NotAToken \<Rightarrow> (Inl MalformedToken, w)
      | Inl BadSignature \<Rightarrow> (Inl InvalidToken, w)
      | Inr payload \<Rightarrow>
          (case map_of payload ''exp'' of
             None \<Rightarrow> (Inl MalformedToken, w)
           | Some expiry \<Rightarrow>
               if expiry < clock w then (Inl ExpiredToken, w) else (Inr payload, w)))"

section \<open>Requests, responses and the token endpoints\<close>

record SignupRequest =
  signup_email :: string
  signup_username :: string
  signup_password :: string

record LoginRequest =
  login_email :: string
  login_password :: string

record GoogleOAuthRequest =
  code :: string

record VerificationRequest =
  verification_token :: token

record RefreshRequest =
  refresh_request_token :: token

record SignupResponse =
  signup_user_uid :: uid

record AuthTokenResponse =
  resp_access_token :: token
  resp_refresh_token :: token
  resp_user_uid :: uid

record VerificationResponse =
  verified_user_uid :: uid

text \<open>\<^verbatim>\<open>d[key]\<close> on a dict: the value, or \<^verbatim>\<open>KeyError\<close>.\<close>

definition subscript :: "(string \<times> 'v) list \<Rightarrow> string \<Rightarrow> 'v io" where
  "subscript d key =
     (case map_of d key of None \<Rightarrow> io_raise (KeyError key) | Some v \<Rightarrow> io_return v)"

text \<open>Lines 139 to 149.\<close>

definition verify_token :: "env \<Rightarrow> VerificationRequest \<Rightarrow> VerificationResponse io" where
  "verify_token E request =
     io_bind (validate_token E (verification_token request)) (\<lambda>payload.
     io_bind (subscript payload ''user_uid'') (\<lambda>user_uid.
     io_return \<lparr>verified_user_uid = user_uid\<rparr>))"

text \<open>Lines 152 to 166. The refresh token of the response is \<^verbatim>\<open>request.token\<close>.\<close>

definition refresh_token :: "env \<Rightarrow> RefreshRequest \<Rightarrow> AuthTokenResponse io" where
  "refresh_token E request =
     io_bind (validate_token E (refresh_request_token request)) (\<lambda>payload.
     io_bind (subscript payload ''user_uid'') (\<lambda>user_uid.
     io_bind (create_access_token E user_uid) (\<lambda>access_token.
     io_return \<lparr>resp_access_token = access_token,
                resp_refresh_token = refresh_request_token request,
                resp_user_uid = user_uid\<rparr>)))"

section \<open>The credential store\<close>

text \<open>
  Modelled from the spec: \<^verbatim>\<open>app/utils/db.py\<close> (\<^verbatim>\<open>SupabaseTable\<close>) is not in src/. After
  sections 2, 3 and 6 of the spec: a table of user records with existence checks by email
  and by username within a provider, lookup of a record's credentials by email, lookup of
  the user identifier by email and provider, insertion of a new record (the password, when
  there is one, is stored hashed) returning a new identifier, and a touch of the
  last-active time. The new identifier is one no record has. The spec does not say what
  \<^verbatim>\<open>get_user_uid\<close> does when no record matches; the handlers call it only after the
  existence check succeeded.
\<close>

definition is_email_exists :: "db \<Rightarrow> string option \<Rightarrow> string \<Rightarrow> bool io" where
  "is_email_exists d em provider =
     io_bind (emit (StoreRead ''is_email_exists'')) (\<lambda>u w.
       (Inr (list_ex (\<lambda>r. Some (email r) = em \<and> auth_provider r = provider) (users w)), w))"

definition is_username_exists :: "db \<Rightarrow> string \<Rightarrow> string \<Rightarrow> bool io" where
  "is_username_exists d name provider =
     io_bind (emit (StoreRead ''is_username_exists'')) (\<lambda>u w.
       (Inr (list_ex (\<lambda>r. username r = name \<and> auth_provider r = provider) (users w)), w))"

definition fresh_uid :: "user_record list \<Rightarrow> uid" where
  "fresh_uid rs = Suc (fold max (map user_uid rs) 0)"

definition insert_new_user ::
  "env \<Rightarrow> db \<Rightarrow> string \<Rightarrow> string \<Rightarrow> string option \<Rightarrow> string \<Rightarrow> string option \<Rightarrow> uid io" where
  "insert_new_user E d em name password provider picture w =
     (let new = fresh_uid (users w)
      in (Inr new,
          w\<lparr>users := users w @
                [\<lparr>user_uid = new, email = em, username = name,
                  password_hash = map_option (hash_password E) password,
                  auth_provider = provider, avatar = picture, last_active = clock w\<rparr>],
            trace := trace w @ [StoreInsert new]\<rparr>))"

record user_creds =
  creds_password :: "string option"
  creds_user_uid :: uid

definition get_user_creds :: "db \<Rightarrow> string \<Rightarrow> user_creds option io" where
  "get_user_creds d em =
     io_bind (emit (StoreRead ''get_user_creds'')) (\<lambda>u w.
       (Inr (map_option
               (\<lambda>r. \<lparr>creds_password = password_hash r, creds_user_uid = user_uid r\<rparr>)
               (find (\<lambda>r. email r = em) (users w))), w))"

definition get_user_uid :: "db \<Rightarrow> string option \<Rightarrow> string \<Rightarrow> uid io" where
  "get_user_uid d em provider =
     io_bind (emit (StoreRead ''get_user_uid'')) (\<lambda>u w.
       (case find (\<lambda>r. Some (email r) = em \<and> auth_provider r = provider) (users w) of
          None \<Rightarrow> (Inl IndexError, w)
        | Some r \<Rightarrow> (Inr (user_uid r), w)))"

definition update_last_active :: "db \<Rightarrow> uid \<Rightarrow> unit io" where
  "update_last_active d u w =
     (Inr (),
      w\<lparr>users := map (\<lambda>r. if user_uid r = u then r\<lparr>last_active := clock w\<rparr> else r) (users w),
        trace := trace w @ [StoreTouch u]\<rparr>)"

section \<open>The handlers\<close>

text \<open>
  What the framework answers: the route's status code for a returned response, the
  exception's own code for an \<open>HTTPException\<close>, 500 for any other exception.
\<close>

definition http_status :: "nat \<Rightarrow> exn + 'a \<Rightarrow> nat" where
  "http_status success r =
     (case r of Inr x \<Rightarrow> success | Inl (HTTPException c detail) \<Rightarrow> c | Inl e \<Rightarrow> 500)"

text \<open>Signup, lines 44 to 54: the block of the \<^verbatim>\<open>with\<close> statement.\<close>

definition signup_block :: "env \<Rightarrow> namespace \<Rightarrow> SignupRequest \<Rightarrow> client \<Rightarrow> uid io" where
  "signup_block E ns request client =
     (case db_handler ns of
        None \<Rightarrow> io_raise (NameError ''db_handler'')
      | Some handler \<Rightarrow>
          (let d = handler client in
           io_bind (is_email_exists d (Some (signup_email request)) ''email'') (\<lambda>registered.
             if registered then io_raise (HTTPException 400 ''Email already registered'')
             else
               io_bind (is_username_exists d (signup_username request) ''email'') (\<lambda>taken.
                 if taken then io_raise (HTTPException 400 ''Username already taken'')
                 else insert_new_user E d (signup_email request) (signup_username request)
                        (Some (signup_password request)) ''email'' None))))"

text \<open>Signup, lines 38 to 56: \<^verbatim>\<open>with db_client() as client\<close>, then the response.\<close>

definition signup :: "env \<Rightarrow> namespace \<Rightarrow> SignupRequest \<Rightarrow> SignupResponse io" where
  "signup E ns request =
     (case db_client ns of
        None \<Rightarrow> io_raise (NameError ''db_client'')
      | Some factory \<Rightarrow>
          io_bind (with_stmt (factory E) (signup_block E ns request)) (\<lambda>new_uid.
          io_return \<lparr>signup_user_uid = new_uid\<rparr>))"

text \<open>Login, lines 65 to 77: the block of the \<^verbatim>\<open>with\<close> statement.\<close>

definition login_block ::
  "env \<Rightarrow> LoginRequest \<Rightarrow> client \<Rightarrow> (token \<times> token \<times> uid) io" where
  "login_block E request client =
     (let supabase = SupabaseTable client in
      io_bind (get_user_creds supabase (login_email request)) (\<lambda>creds.
        case creds of
          None \<Rightarrow> io_raise (HTTPException 404 ''User not found'')
        | Some c \<Rightarrow>
            if \<not> verify_password E (login_password request) (creds_password c)
            then io_raise (HTTPException 401 ''Incorrect password'')
            else
              (let u = creds_user_uid c in
               io_bind (create_access_token E u) (\<lambda>access_token.
               io_bind (create_refresh_token E u) (\<lambda>new_refresh_token.
               io_bind (update_last_active supabase u) (\<lambda>done.
               io_return (access_token, new_refresh_token, u)))))))"

text \<open>Login, lines 59 to 83: \<^verbatim>\<open>with supabase_client() as client\<close>, then the response.\<close>

definition login :: "env \<Rightarrow> LoginRequest \<Rightarrow> AuthTokenResponse io" where
  "login E request =
     io_bind (with_stmt (supabase_client E) (login_block E request)) (\<lambda>(a, r, u).
     io_return \<lparr>resp_access_token = a, resp_refresh_token = r, resp_user_uid = u\<rparr>)"

text \<open>
  The exchange with Google's token endpoint, lines 91 to 102. \<^verbatim>\<open>httpx.AsyncClient()\<close> is a
  context manager whose entry and exit do nothing here. \<^verbatim>\<open>raise_for_status\<close> raises for
  every status outside 200 to 299.
\<close>

datatype http_client = AsyncClient

definition httpx_AsyncClient :: "http_client manager" where
  "httpx_AsyncClient = ContextManager (io_return AsyncClient) (io_return ())"

definition post ::
  "env \<Rightarrow> string \<Rightarrow> (string \<times> string) list \<Rightarrow> (nat \<times> (string \<times> string) list option) io" where
  "post E uri data =
     io_bind (emit (HttpPost uri)) (\<lambda>u.
       case http_post E uri data of
         ConnectionFailed \<Rightarrow> io_raise RequestError
       | Response s body \<Rightarrow> io_return (s, body))"

definition raise_for_status :: "nat \<times> (string \<times> string) list option \<Rightarrow> unit io" where
  "raise_for_status response =
     (if 200 \<le> fst response \<and> fst response < 300 then io_return ()
      else io_raise (HTTPStatusError (fst response)))"

definition json :: "nat \<times> (string \<times> string) list option \<Rightarrow> (string \<times> string) list io" where
  "json response =
     (case snd response of None \<Rightarrow> io_raise JSONDecodeError | Some d \<Rightarrow> io_return d)"

definition token_request_uri :: string where
  "token_request_uri = ''https://oauth2.googleapis.com/token''"

definition token_request_data :: "env \<Rightarrow> GoogleOAuthRequest \<Rightarrow> (string \<times> string) list" where
  "token_request_data E request =
     [(''code'', code request),
      (''client_id'', GOOGLE_OAUTH_CLIENT_ID E),
      (''client_secret'', GOOGLE_OAUTH_CLIENT_SECRET E),
      (''redirect_uri'', ''postmessage''),
      (''grant_type'', ''authorization_code'')]"

definition exchange_code :: "env \<Rightarrow> GoogleOAuthRequest \<Rightarrow> (string \<times> string) list io" where
  "exchange_code E request =
     with_stmt httpx_AsyncClient (\<lambda>client.
       io_bind (post E token_request_uri (token_request_data E request)) (\<lambda>response.
       io_bind (raise_for_status response) (\<lambda>u.
       json response)))"

text \<open>
  The spec's names for the ways the exchange can fail to succeed: the request did not get
  through, or the answer's status is outside 200 to 299.
\<close>

definition exchange_succeeds :: "http_outcome \<Rightarrow> bool" where
  "exchange_succeeds outcome =
     (case outcome of ConnectionFailed \<Rightarrow> False | Response s body \<Rightarrow> 200 \<le> s \<and> s < 300)"

definition ProviderExchangeFailed :: "exn \<Rightarrow> bool" where
  "ProviderExchangeFailed e =
     (case e of RequestError \<Rightarrow> True | HTTPStatusError s \<Rightarrow> True | other \<Rightarrow> False)"

text \<open>
  OAuth login, lines 116 to 127: the block of the \<^verbatim>\<open>with\<close> statement. \<^verbatim>\<open>email\<close> is
  \<^verbatim>\<open>id_info.get("email")\<close>, \<^verbatim>\<open>None\<close> when the assertion has no such claim;
  \<^verbatim>\<open>email.split("@")[0]\<close> is the text before the first "@" and raises \<^verbatim>\<open>AttributeError\<close> on
  \<^verbatim>\<open>None\<close>.
\<close>

definition google_block :: "env \<Rightarrow> string option \<Rightarrow> string option \<Rightarrow> client \<Rightarrow> uid io" where
  "google_block E em picture client =
     (let supabase = SupabaseTable client in
      io_bind (is_email_exists supabase em ''google'') (\<lambda>registered.
        if registered
        then io_bind (get_user_uid supabase em ''google'') (\<lambda>u.
             io_bind (update_last_active supabase u) (\<lambda>done.
             io_return u))
        else
          (case em of
             None \<Rightarrow> io_raise (AttributeError ''split'')
           | Some e \<Rightarrow>
               (let name = takeWhile (\<lambda>c. c \<noteq> CHR ''@'') e
                in insert_new_user E supabase e name None ''google'' picture))))"

text \<open>OAuth login, lines 86 to 136.\<close>

definition continue_with_google :: "env \<Rightarrow> GoogleOAuthRequest \<Rightarrow> AuthTokenResponse io" where
  "continue_with_google E request =
     io_bind (exchange_code E request) (\<lambda>token_response.
       case map_of token_response ''id_token'' of
         None \<Rightarrow> io_raise (HTTPException 400 ''Missing id_token in response.'')
       | Some id_token_value \<Rightarrow>
           if id_token_value = []
           then io_raise (HTTPException 400 ''Missing id_token in response.'')
           else
             io_bind (emit (AssertionVerified id_token_value)) (\<lambda>u.
             io_bind (\<lambda>w. (verify_oauth2_token E id_token_value (GOOGLE_OAUTH_CLIENT_ID E), w))
               (\<lambda>id_info.
             io_bind (with_stmt (supabase_client E)
                        (google_block E (map_of id_info ''email'') (map_of id_info ''picture'')))
               (\<lambda>u.
             io_bind (create_access_token E u) (\<lambda>access_token.
             io_bind (create_refresh_token E u) (\<lambda>new_refresh_token.
             io_return \<lparr>resp_access_token = access_token,
                        resp_refresh_token = new_refresh_token,
                        resp_user_uid = u\<rparr>))))))"

section \<open>A concrete environment for evaluation\<close>

text \<open>
  A small JWT stand-in: the user identifier and the expiry in unary, then the key. Decoding
  re-encodes what it read and compares, as a MAC check does.
\<close>

definition demo_jwt_encode :: "(string \<times> nat) list \<Rightarrow> token" where
  "demo_jwt_encode p =
     (case (map_of p ''user_uid'', map_of p ''exp'') of
        (Some u, Some e) \<Rightarrow> replicate u CHR ''u'' @ ''.'' @ replicate e CHR ''e'' @ ''.k3y''
      | _ \<Rightarrow> ''?'')"

definition demo_jwt_decode :: "token \<Rightarrow> jwt_failure + (string \<times> nat) list" where
  "demo_jwt_decode t =
     (let u = length (takeWhile (\<lambda>c. c = CHR ''u'') t);
          e = length (takeWhile (\<lambda>c. c = CHR ''e'') (drop (Suc u) t));
          p = [(''user_uid'', u), (''exp'', e)]
      in if t = demo_jwt_encode p then Inr p
         else if take (u + e + 2) t = take (u + e + 2) (demo_jwt_encode p)
         then Inl BadSignature else Inl NotAToken)"

definition demo_env :: env where
  "demo_env =
     \<lparr>SUPABASE_URL = ''https://db.example'', SUPABASE_KEY = ''service-key'',
      GOOGLE_OAUTH_CLIENT_ID = ''client-id'', GOOGLE_OAUTH_CLIENT_SECRET = ''client-secret'',
      ACCESS_TTL = 3, REFRESH_TTL = 9,
      jwt_encode = demo_jwt_encode, jwt_decode = demo_jwt_decode,
      hash_password = (\<lambda>p. ''h:'' @ p),
      verify_password = (\<lambda>p h. h = Some (''h:'' @ p)),
      http_post = (\<lambda>uri data.
        if map_of data ''code'' = Some ''good-code''
        then Response 200 (Some [(''id_token'', ''signed-assertion'')])
        else Response 400 None),
      verify_oauth2_token = (\<lambda>t audience.
        if t = ''signed-assertion'' \<and> audience = ''client-id''
        then Inr [(''email'', ''bob@x.com''), (''picture'', ''bob.png'')]
        else Inl ValueError)\<rparr>"

definition demo_world :: world where
  "demo_world =
     \<lparr>users = [\<lparr>user_uid = 7, email = ''a@x.com'', username = ''alice'',
                 password_hash = Some ''h:pw1'', auth_provider = ''email'',
                 avatar = None, last_active = 0\<rparr>],
      clock = 5, trace = []\<rparr>"

text \<open>The same environment with an assertion that has no email claim, and with no network.\<close>

definition demo_env_no_email :: env where
  "demo_env_no_email =
     demo_env\<lparr>verify_oauth2_token := (\<lambda>t audience. Inr [(''picture'', ''bob.png'')])\<rparr>"

definition demo_env_offline :: env where
  "demo_env_offline = demo_env\<lparr>http_post := (\<lambda>uri data. ConnectionFailed)\<rparr>"

section \<open>Properties of module initialisation\<close>

lemma import_unknown_provider:
  assumes "p \<noteq> Some ''supabase''"
  shows "import_auth_module p =
           (Inl (UnknownDatabaseProvider (''Unknown database provider: '' @ format_value p)),
            empty_namespace)"
  using assms
  by (simp add: import_auth_module_def auth_module_body_def stmt_seq_def
      match_database_provider_def)

lemma import_supabase_result:
  "fst (import_auth_module (Some ''supabase'')) = Inr ()"
  by (simp add: import_auth_module_def auth_module_body_def stmt_seq_def
      match_database_provider_def create_router_def router_post_def empty_namespace_def)

lemma import_supabase_namespace:
  "snd (import_auth_module (Some ''supabase'')) =
     \<lparr>db_client = Some supabase_client, db_handler = Some SupabaseTable,
      router = Some
        [\<lparr>http_verb = ''POST'', path = ''/signup'', status_code = 201, endpoint = ''signup''\<rparr>,
         \<lparr>http_verb = ''POST'', path = ''/login'', status_code = 200, endpoint = ''login''\<rparr>,
         \<lparr>http_verb = ''POST'', path = ''/google'', status_code = 201,
          endpoint = ''continue_with_google''\<rparr>,
         \<lparr>http_verb = ''POST'', path = ''/verify-token'', status_code = 200,
          endpoint = ''verify_token''\<rparr>,
         \<lparr>http_verb = ''POST'', path = ''/refresh-token/'', status_code = 200,
          endpoint = ''refresh_token''\<rparr>]\<rparr>"
  by (simp add: import_auth_module_def auth_module_body_def stmt_seq_def
      match_database_provider_def create_router_def router_post_def empty_namespace_def)

text \<open>
  Claim C10. Importing the auth module with a configured database provider other than
  "supabase" raises \<open>UnknownDatabaseProvider\<close> (the message names the value) while no
  router exists and no route has been added, and neither \<open>db_client\<close> nor \<open>db_handler\<close>
  is bound; with "supabase" the import succeeds, \<open>db_client\<close> is \<open>supabase_client\<close>,
  \<open>db_handler\<close> is \<open>SupabaseTable\<close>, and the five routes are defined.
\<close>

theorem module_init_provider_switch:
  "(p \<noteq> Some ''supabase'' \<longrightarrow>
      fst (import_auth_module p) =
        Inl (UnknownDatabaseProvider (''Unknown database provider: '' @ format_value p)) \<and>
      router (snd (import_auth_module p)) = None \<and>
      db_client (snd (import_auth_module p)) = None \<and>
      db_handler (snd (import_auth_module p)) = None) \<and>
   (p = Some ''supabase'' \<longrightarrow>
      fst (import_auth_module p) = Inr () \<and>
      db_client (snd (import_auth_module p)) = Some supabase_client \<and>
      db_handler (snd (import_auth_module p)) = Some SupabaseTable \<and>
      map_option (map endpoint) (router (snd (import_auth_module p))) =
        Some [''signup'', ''login'', ''continue_with_google'', ''verify_token'',
              ''refresh_token''])"
proof (intro conjI impI)
  assume unknown: "p \<noteq> Some ''supabase''"
  note r = import_unknown_provider [OF unknown]
  show "fst (import_auth_module p) =
        Inl (UnknownDatabaseProvider (''Unknown database provider: '' @ format_value p))"
    by (simp add: r)
  show "router (snd (import_auth_module p)) = None"
    by (simp add: r empty_namespace_def)
  show "db_client (snd (import_auth_module p)) = None"
    by (simp add: r empty_namespace_def)
  show "db_handler (snd (import_auth_module p)) = None"
    by (simp add: r empty_namespace_def)
next
  assume known: "p = Some ''supabase''"
  show "fst (import_auth_module p) = Inr ()"
    by (simp add: known import_supabase_result)
  show "db_client (snd (import_auth_module p)) = Some supabase_client"
    by (simp add: known import_supabase_namespace)
  show "db_handler (snd (import_auth_module p)) = Some SupabaseTable"
    by (simp add: known import_supabase_namespace)
  show "map_option (map endpoint) (router (snd (import_auth_module p))) =
        Some [''signup'', ''login'', ''continue_with_google'', ''verify_token'',
              ''refresh_token'']"
    by (simp add: known import_supabase_namespace)
qed

theorem module_init_provider_switch_witness:
  "fst (import_auth_module (Some ''sqlite'')) =
     Inl (UnknownDatabaseProvider ''Unknown database provider: sqlite'') \<and>
   router (snd (import_auth_module (Some ''sqlite''))) = None \<and>
   fst (import_auth_module None) =
     Inl (UnknownDatabaseProvider ''Unknown database provider: None'') \<and>
   router (snd (import_auth_module None)) = None \<and>
   fst (import_auth_module (Some ''supabase'')) = Inr () \<and>
   db_client (snd (import_auth_module (Some ''supabase''))) = Some supabase_client \<and>
   db_handler (snd (import_auth_module (Some ''supabase''))) = Some SupabaseTable"
  using module_init_provider_switch [of "Some ''sqlite''"]
    module_init_provider_switch [of None]
    module_init_provider_switch [of "Some ''supabase''"]
  by (simp add: format_value_def)

section \<open>Properties of the token codec and the token endpoints\<close>

lemma validate_minted:
  assumes codec:
      "jwt_decode E (jwt_encode E (token_payload u expiry)) = Inr (token_payload u expiry)"
    and fresh: "clock w \<le> expiry"
  shows "validate_token E (jwt_encode E (token_payload u expiry)) w =
           (Inr (token_payload u expiry), w)"
  using fresh
  by (simp add: validate_token_def codec token_payload_def [symmetric])
     (simp add: token_payload_def)

lemma validate_token_world: "snd (validate_token E tok w) = w"
  by (simp add: validate_token_def split: sum.splits jwt_failure.splits option.splits)

lemma demo_access_token:
  "create_access_token demo_env 7 demo_world =
     (Inr ''uuuuuuu.eeeeeeee.k3y'', demo_world\<lparr>trace := [Minted Access 7]\<rparr>)"
  by (simp add: create_access_token_def demo_env_def demo_world_def token_payload_def
      demo_jwt_encode_def eval_nat_numeral)

lemma demo_refresh_token:
  "create_refresh_token demo_env 7 demo_world =
     (Inr ''uuuuuuu.eeeeeeeeeeeeee.k3y'', demo_world\<lparr>trace := [Minted Refresh 7]\<rparr>)"
  by (simp add: create_refresh_token_def demo_env_def demo_world_def token_payload_def
      demo_jwt_encode_def eval_nat_numeral)

lemma demo_codec_roundtrip:
  "jwt_decode demo_env
     (jwt_encode demo_env (token_payload 7 (clock demo_world + ACCESS_TTL demo_env))) =
   Inr (token_payload 7 (clock demo_world + ACCESS_TTL demo_env))"
  by code_simp

lemma demo_validate_refresh:
  "fst (validate_token demo_env ''uuuuuuu.eeeeeeeeeeeeee.k3y'' demo_world) =
     Inr [(''user_uid'', 7), (''exp'', 14)]"
  by code_simp

text \<open>
  Claim C1. For every user identifier \<open>u\<close> (and every JWT library that decodes what it
  encoded for \<open>u\<close>), \<open>create_access_token\<close> returns a token, and right after its creation
  \<open>validate_token\<close> accepts that token with a payload whose \<open>user_uid\<close> is \<open>u\<close>, and the
  verify-token endpoint answers it with \<open>user_uid = u\<close>.
\<close>

theorem access_token_roundtrip:
  assumes codec:
    "jwt_decode E (jwt_encode E (token_payload u (clock w + ACCESS_TTL E))) =
       Inr (token_payload u (clock w + ACCESS_TTL E))"
  shows "\<exists>tok w1. create_access_token E u w = (Inr tok, w1) \<and> clock w1 = clock w \<and>
           (\<exists>payload. validate_token E tok w1 = (Inr payload, w1) \<and>
                      map_of payload ''user_uid'' = Some u) \<and>
           verify_token E \<lparr>verification_token = tok\<rparr> w1 =
             (Inr \<lparr>verified_user_uid = u\<rparr>, w1)"
proof -
  let ?p = "token_payload u (clock w + ACCESS_TTL E)"
  let ?tok = "jwt_encode E ?p"
  let ?w1 = "w\<lparr>trace := trace w @ [Minted Access u]\<rparr>"
  have c: "create_access_token E u w = (Inr ?tok, ?w1)"
    by (simp add: create_access_token_def)
  have v: "validate_token E ?tok ?w1 = (Inr ?p, ?w1)"
    using codec by (intro validate_minted) simp_all
  have k: "map_of ?p ''user_uid'' = Some u"
    by (simp add: token_payload_def)
  have e: "verify_token E \<lparr>verification_token = ?tok\<rparr> ?w1 =
             (Inr \<lparr>verified_user_uid = u\<rparr>, ?w1)"
    by (simp add: verify_token_def io_bind_def v subscript_def k io_return_def)
  from c v k e show ?thesis by auto
qed

theorem access_token_roundtrip_witness:
  "create_access_token demo_env 7 demo_world =
     (Inr ''uuuuuuu.eeeeeeee.k3y'', demo_world\<lparr>trace := [Minted Access 7]\<rparr>) \<and>
   verify_token demo_env \<lparr>verification_token = ''uuuuuuu.eeeeeeee.k3y''\<rparr>
       (demo_world\<lparr>trace := [Minted Access 7]\<rparr>) =
     (Inr \<lparr>verified_user_uid = 7\<rparr>, demo_world\<lparr>trace := [Minted Access 7]\<rparr>)"
proof -
  from access_token_roundtrip [OF demo_codec_roundtrip] obtain tok w1
    where minted: "create_access_token demo_env 7 demo_world = (Inr tok, w1)"
      and verified: "verify_token demo_env \<lparr>verification_token = tok\<rparr> w1 =
                       (Inr \<lparr>verified_user_uid = 7\<rparr>, w1)"
    by blast
  from minted have "tok = ''uuuuuuu.eeeeeeee.k3y''"
    and "w1 = demo_world\<lparr>trace := [Minted Access 7]\<rparr>"
    by (simp_all add: demo_access_token)
  with verified show ?thesis
    by (simp add: demo_access_token)
qed

text \<open>
  Claim C2. For every token that \<open>validate_token\<close> accepts with a payload whose
  \<open>user_uid\<close> is \<open>u\<close> (and every JWT library that decodes what it encodes for \<open>u\<close>), the
  refresh-token endpoint returns: as access token the very token that \<open>create_access_token\<close>
  mints for \<open>u\<close> in this call (the minting is the only event of the call), which
  \<open>validate_token\<close> accepts with \<open>user_uid = u\<close>; \<open>u\<close> as \<open>user_uid\<close>; and as refresh token
  the very string of the request. The user table is not touched.
\<close>

theorem refresh_token_flow:
  assumes valid: "fst (validate_token E tok w) = Inr payload"
    and carries: "map_of payload ''user_uid'' = Some u"
    and codec:
      "jwt_decode E (jwt_encode E (token_payload u (clock w + ACCESS_TTL E))) =
         Inr (token_payload u (clock w + ACCESS_TTL E))"
  shows "\<exists>new w1.
           refresh_token E \<lparr>refresh_request_token = tok\<rparr> w =
             (Inr \<lparr>resp_access_token = new, resp_refresh_token = tok, resp_user_uid = u\<rparr>, w1) \<and>
           create_access_token E u w = (Inr new, w1) \<and>
           trace w1 = trace w @ [Minted Access u] \<and> users w1 = users w \<and>
           (\<exists>p. validate_token E new w1 = (Inr p, w1) \<and> map_of p ''user_uid'' = Some u)"
proof -
  let ?p = "token_payload u (clock w + ACCESS_TTL E)"
  let ?new = "jwt_encode E ?p"
  let ?w1 = "w\<lparr>trace := trace w @ [Minted Access u]\<rparr>"
  have v0: "validate_token E tok w = (Inr payload, w)"
    using valid validate_token_world [of E tok w] by (cases "validate_token E tok w") simp
  have r: "refresh_token E \<lparr>refresh_request_token = tok\<rparr> w =
             (Inr \<lparr>resp_access_token = ?new, resp_refresh_token = tok, resp_user_uid = u\<rparr>, ?w1)"
    by (simp add: refresh_token_def io_bind_def v0 subscript_def carries io_return_def
        create_access_token_def)
  have v: "validate_token E ?new ?w1 = (Inr ?p, ?w1)"
    using codec by (intro validate_minted) simp_all
  have k: "map_of ?p ''user_uid'' = Some u"
    by (simp add: token_payload_def)
  have c: "create_access_token E u w = (Inr ?new, ?w1)"
    by (simp add: create_access_token_def)
  from r c v k show ?thesis by auto
qed

theorem refresh_token_flow_witness:
  "refresh_token demo_env \<lparr>refresh_request_token = ''uuuuuuu.eeeeeeeeeeeeee.k3y''\<rparr> demo_world =
     (Inr \<lparr>resp_access_token = ''uuuuuuu.eeeeeeee.k3y'',
           resp_refresh_token = ''uuuuuuu.eeeeeeeeeeeeee.k3y'', resp_user_uid = 7\<rparr>,
      demo_world\<lparr>trace := [Minted Access 7]\<rparr>) \<and>
   create_access_token demo_env 7 demo_world =
     (Inr ''uuuuuuu.eeeeeeee.k3y'', demo_world\<lparr>trace := [Minted Access 7]\<rparr>) \<and>
   fst (validate_token demo_env ''uuuuuuu.eeeeeeee.k3y''
          (demo_world\<lparr>trace := [Minted Access 7]\<rparr>)) = Inr [(''user_uid'', 7), (''exp'', 8)]"
proof -
  have k: "map_of [(''user_uid'', 7::nat), (''exp'', 14)] ''user_uid'' = Some 7"
    by simp
  from refresh_token_flow [OF demo_validate_refresh k demo_codec_roundtrip] obtain new w1
    where r: "refresh_token demo_env
                \<lparr>refresh_request_token = ''uuuuuuu.eeeeeeeeeeeeee.k3y''\<rparr> demo_world =
              (Inr \<lparr>resp_access_token = new,
                    resp_refresh_token = ''uuuuuuu.eeeeeeeeeeeeee.k3y'', resp_user_uid = 7\<rparr>, w1)"
      and c: "create_access_token demo_env 7 demo_world = (Inr new, w1)"
    by blast
  from c have "new = ''uuuuuuu.eeeeeeee.k3y''"
    and "w1 = demo_world\<lparr>trace := [Minted Access 7]\<rparr>"
    by (simp_all add: demo_access_token)
  moreover have "fst (validate_token demo_env ''uuuuuuu.eeeeeeee.k3y''
          (demo_world\<lparr>trace := [Minted Access 7]\<rparr>)) = Inr [(''user_uid'', 7), (''exp'', 8)]"
    by code_simp
  ultimately show ?thesis using r by (simp add: demo_access_token)
qed

section \<open>The handlers that open the store\<close>

text \<open>
  \<^verbatim>\<open>supabase_client()\<close> is a generator object, so the \<^verbatim>\<open>with\<close> statement raises before the
  generator's code or the block runs. Signup, login and OAuth login all reach the store
  through this statement.
\<close>

lemma initialised_db_client: "db_client initialised = Some supabase_client"
  by (simp add: initialised_def import_supabase_namespace)

lemma initialised_db_handler: "db_handler initialised = Some SupabaseTable"
  by (simp add: initialised_def import_supabase_namespace)

lemma with_supabase_client:
  "with_stmt (supabase_client E) block w = (Inl NotAContextManager, w)"
  by (simp add: with_stmt_def supabase_client_def)

lemma signup_raises:
  assumes "db_client ns = Some supabase_client"
  shows "signup E ns request w = (Inl NotAContextManager, w)"
  by (simp add: signup_def assms io_bind_def with_supabase_client)

lemma login_raises: "login E request w = (Inl NotAContextManager, w)"
  by (simp add: login_def io_bind_def with_supabase_client)

lemma exchange_code_eq:
  "exchange_code E request w =
     (case http_post E token_request_uri (token_request_data E request) of
        ConnectionFailed \<Rightarrow> Inl RequestError
      | Response s body \<Rightarrow>
          if 200 \<le> s \<and> s < 300
          then (case body of None \<Rightarrow> Inl JSONDecodeError | Some d \<Rightarrow> Inr d)
          else Inl (HTTPStatusError s),
      w\<lparr>trace := trace w @ [HttpPost token_request_uri]\<rparr>)"
  by (simp add: exchange_code_def with_stmt_def httpx_AsyncClient_def io_return_def io_bind_def
      post_def emit_def raise_for_status_def json_def io_raise_def
      split: http_outcome.splits option.splits)

lemma google_exchange_failed:
  assumes failed:
    "\<not> exchange_succeeds (http_post E token_request_uri (token_request_data E request))"
  shows "\<exists>e. continue_with_google E request w =
               (Inl e, w\<lparr>trace := trace w @ [HttpPost token_request_uri]\<rparr>) \<and>
             ProviderExchangeFailed e"
proof (cases "http_post E token_request_uri (token_request_data E request)")
  case ConnectionFailed
  then have "continue_with_google E request w =
               (Inl RequestError, w\<lparr>trace := trace w @ [HttpPost token_request_uri]\<rparr>)"
    by (simp add: continue_with_google_def io_bind_def exchange_code_eq)
  then show ?thesis
    by (simp add: ProviderExchangeFailed_def)
next
  case (Response s body)
  with failed have "\<not> (200 \<le> s \<and> s < 300)"
    by (simp add: exchange_succeeds_def)
  with Response have "continue_with_google E request w =
               (Inl (HTTPStatusError s), w\<lparr>trace := trace w @ [HttpPost token_request_uri]\<rparr>)"
    by (auto simp add: continue_with_google_def io_bind_def exchange_code_eq)
  then show ?thesis
    by (simp add: ProviderExchangeFailed_def)
qed

lemma google_after_verification:
  assumes "http_post E token_request_uri (token_request_data E request) = Response s (Some d)"
    and "200 \<le> s" and "s < 300"
    and "map_of d ''id_token'' = Some v" and "v \<noteq> []"
    and "verify_oauth2_token E v (GOOGLE_OAUTH_CLIENT_ID E) = Inr id_info"
  shows "continue_with_google E request w =
           (Inl NotAContextManager,
            w\<lparr>trace := trace w @ [HttpPost token_request_uri, AssertionVerified v]\<rparr>)"
  using assms
  by (simp add: continue_with_google_def io_bind_def exchange_code_eq emit_def
      with_supabase_client)

lemma google_never_returns:
  "\<exists>e w1. continue_with_google E request w = (Inl e, w1) \<and> users w1 = users w \<and>
     (trace w1 = trace w @ [HttpPost token_request_uri] \<or>
      (\<exists>v. trace w1 = trace w @ [HttpPost token_request_uri, AssertionVerified v]))"
  by (simp add: continue_with_google_def io_bind_def exchange_code_eq emit_def io_raise_def
      with_supabase_client split: http_outcome.splits option.splits sum.splits)


section \<open>What the blocks compute when handed a client\<close>

text \<open>
  The blocks under the \<^verbatim>\<open>with\<close> statements, applied to a client directly. No handler gets
  this far; the lemmas record what lines 44 to 54, 65 to 77 and 116 to 127 would do.
\<close>

lemma signup_block_duplicate_email:
  assumes "db_handler ns = Some SupabaseTable"
    and "list_ex (\<lambda>r. email r = signup_email request \<and> auth_provider r = ''email'') (users w)"
  shows "signup_block E ns request client w =
           (Inl (HTTPException 400 ''Email already registered''),
            w\<lparr>trace := trace w @ [StoreRead ''is_email_exists'']\<rparr>)"
  using assms
  by (simp add: signup_block_def is_email_exists_def io_bind_def emit_def io_raise_def Let_def)

lemma signup_block_duplicate_username:
  assumes "db_handler ns = Some SupabaseTable"
    and "\<not> list_ex (\<lambda>r. email r = signup_email request \<and> auth_provider r = ''email'') (users w)"
    and "list_ex (\<lambda>r. username r = signup_username request \<and> auth_provider r = ''email'') (users w)"
  shows "signup_block E ns request client w =
           (Inl (HTTPException 400 ''Username already taken''),
            w\<lparr>trace := trace w @ [StoreRead ''is_email_exists'', StoreRead ''is_username_exists'']\<rparr>)"
  using assms
  by (simp add: signup_block_def is_email_exists_def is_username_exists_def io_bind_def emit_def
      io_raise_def Let_def)

lemma signup_block_unused:
  assumes "db_handler ns = Some SupabaseTable"
    and "\<not> list_ex (\<lambda>r. email r = signup_email request \<and> auth_provider r = ''email'') (users w)"
    and "\<not> list_ex (\<lambda>r. username r = signup_username request \<and> auth_provider r = ''email'') (users w)"
  shows "signup_block E ns request client w =
           (Inr (fresh_uid (users w)),
            w\<lparr>users := users w @
                 [\<lparr>user_uid = fresh_uid (users w), email = signup_email request,
                   username = signup_username request,
                   password_hash = Some (hash_password E (signup_password request)),
                   auth_provider = ''email'', avatar = None, last_active = clock w\<rparr>],
              trace := trace w @ [StoreRead ''is_email_exists'', StoreRead ''is_username_exists'',
                                  StoreInsert (fresh_uid (users w))]\<rparr>)"
  using assms
  by (simp add: signup_block_def is_email_exists_def is_username_exists_def io_bind_def emit_def
      insert_new_user_def Let_def)

lemma login_block_unknown_email:
  assumes "find (\<lambda>r. email r = login_email request) (users w) = None"
  shows "login_block E request client w =
           (Inl (HTTPException 404 ''User not found''),
            w\<lparr>trace := trace w @ [StoreRead ''get_user_creds'']\<rparr>)"
  using assms
  by (simp add: login_block_def get_user_creds_def io_bind_def emit_def io_raise_def Let_def)

lemma login_block_wrong_password:
  assumes "find (\<lambda>r. email r = login_email request) (users w) = Some r"
    and "\<not> verify_password E (login_password request) (password_hash r)"
  shows "login_block E request client w =
           (Inl (HTTPException 401 ''Incorrect password''),
            w\<lparr>trace := trace w @ [StoreRead ''get_user_creds'']\<rparr>)"
  using assms
  by (simp add: login_block_def get_user_creds_def io_bind_def emit_def io_raise_def Let_def)

lemma login_block_correct_password:
  assumes "find (\<lambda>r. email r = login_email request) (users w) = Some r"
    and "verify_password E (login_password request) (password_hash r)"
  shows "login_block E request client w =
           (Inr (jwt_encode E (token_payload (user_uid r) (clock w + ACCESS_TTL E)),
                 jwt_encode E (token_payload (user_uid r) (clock w + REFRESH_TTL E)),
                 user_uid r),
            w\<lparr>users := map (\<lambda>x. if user_uid x = user_uid r then x\<lparr>last_active := clock w\<rparr> else x)
                          (users w),
              trace := trace w @ [StoreRead ''get_user_creds'', Minted Access (user_uid r),
                                  Minted Refresh (user_uid r), StoreTouch (user_uid r)]\<rparr>)"
  using assms
  by (simp add: login_block_def get_user_creds_def io_bind_def emit_def io_return_def
      create_access_token_def create_refresh_token_def update_last_active_def Let_def)

lemma google_block_no_email:
  "google_block E None picture client w =
     (Inl (AttributeError ''split''), w\<lparr>trace := trace w @ [StoreRead ''is_email_exists'']\<rparr>)"
  by (simp add: google_block_def is_email_exists_def io_bind_def emit_def io_raise_def
      list_ex_iff Let_def)

lemma google_block_first_login:
  assumes "\<not> list_ex (\<lambda>r. email r = e \<and> auth_provider r = ''google'') (users w)"
  shows "google_block E (Some e) picture client w =
           (Inr (fresh_uid (users w)),
            w\<lparr>users := users w @
                 [\<lparr>user_uid = fresh_uid (users w), email = e,
                   username = takeWhile (\<lambda>c. c \<noteq> CHR ''@'') e, password_hash = None,
                   auth_provider = ''google'', avatar = picture, last_active = clock w\<rparr>],
              trace := trace w @ [StoreRead ''is_email_exists'',
                                  StoreInsert (fresh_uid (users w))]\<rparr>)"
  using assms
  by (simp add: google_block_def is_email_exists_def io_bind_def emit_def insert_new_user_def
      Let_def)

lemma google_block_later_login:
  assumes "find (\<lambda>r. email r = e \<and> auth_provider r = ''google'') (users w) = Some r"
  shows "google_block E (Some e) picture client w =
           (Inr (user_uid r),
            w\<lparr>users := map (\<lambda>x. if user_uid x = user_uid r then x\<lparr>last_active := clock w\<rparr> else x)
                          (users w),
              trace := trace w @ [StoreRead ''is_email_exists'', StoreRead ''get_user_uid'',
                                  StoreTouch (user_uid r)]\<rparr>)"
proof -
  from assms have "list_ex (\<lambda>r. email r = e \<and> auth_provider r = ''google'') (users w)"
    by (auto simp add: list_ex_iff find_Some_iff)
  with assms show ?thesis
    by (simp add: google_block_def is_email_exists_def get_user_uid_def io_bind_def emit_def
        io_return_def update_last_active_def Let_def)
qed

section \<open>Signup, login and OAuth login as the handlers run\<close>

lemma supabase_client_is_generator:
  "\<exists>body fin. supabase_client E = GeneratorObject body fin \<and> (\<forall>w. fin w = (Inr (), w))"
  by (simp add: supabase_client_def io_return_def)

text \<open>
  Claim C3, as the code runs. For every login request, whatever the table holds and
  whatever the password: \<open>login\<close> raises at \<^verbatim>\<open>with supabase_client() as client\<close> (line 64),
  before \<^verbatim>\<open>get_user_creds\<close>; the world is unchanged (no lookup, no token minted, no
  last-active touch) and the framework answers 500. The claim's 404, 401 and token pair
  are the outcomes of the block (lemmas \<open>login_block_unknown_email\<close>,
  \<open>login_block_wrong_password\<close>, \<open>login_block_correct_password\<close>), which is never entered.
\<close>

theorem login_stops_at_with_statement:
  "login E request w = (Inl NotAContextManager, w) \<and>
   http_status 200 (fst (login E request w)) = 500"
  by (simp add: login_raises http_status_def)

theorem login_stops_at_with_statement_witness:
  "login demo_env \<lparr>login_email = ''nobody@x.com'', login_password = ''pw1''\<rparr> demo_world =
     (Inl NotAContextManager, demo_world) \<and>
   login demo_env \<lparr>login_email = ''a@x.com'', login_password = ''wrong''\<rparr> demo_world =
     (Inl NotAContextManager, demo_world) \<and>
   login demo_env \<lparr>login_email = ''a@x.com'', login_password = ''pw1''\<rparr> demo_world =
     (Inl NotAContextManager, demo_world) \<and>
   http_status 200
     (fst (login demo_env \<lparr>login_email = ''a@x.com'', login_password = ''pw1''\<rparr> demo_world)) = 500"
  using login_stops_at_with_statement [of demo_env
      "\<lparr>login_email = ''nobody@x.com'', login_password = ''pw1''\<rparr>" demo_world]
    login_stops_at_with_statement [of demo_env
      "\<lparr>login_email = ''a@x.com'', login_password = ''wrong''\<rparr>" demo_world]
    login_stops_at_with_statement [of demo_env
      "\<lparr>login_email = ''a@x.com'', login_password = ''pw1''\<rparr>" demo_world]
  by (simp add: http_status_def)

text \<open>
  Claim C4, as the code runs. For every signup request whose email already belongs to an
  email-provider record, \<open>signup\<close> (in the initialised module) raises at
  \<^verbatim>\<open>with db_client() as client\<close> (line 43), before the email check of line 45: the world
  is unchanged and the framework answers 500, not 400. The claim's outcome is that of the
  block (lemma \<open>signup_block_duplicate_email\<close>), which is never entered.
\<close>

theorem signup_duplicate_email_stops_at_with_statement:
  assumes "list_ex (\<lambda>r. email r = signup_email request \<and> auth_provider r = ''email'') (users w)"
  shows "signup E initialised request w = (Inl NotAContextManager, w) \<and>
         http_status 201 (fst (signup E initialised request w)) = 500"
  by (simp add: signup_raises [OF initialised_db_client] http_status_def)

theorem signup_duplicate_email_stops_at_with_statement_witness:
  "list_ex (\<lambda>r. email r = ''a@x.com'' \<and> auth_provider r = ''email'') (users demo_world) \<and>
   signup demo_env initialised
     \<lparr>signup_email = ''a@x.com'', signup_username = ''zed'', signup_password = ''pw2''\<rparr>
     demo_world = (Inl NotAContextManager, demo_world) \<and>
   http_status 201 (fst (signup demo_env initialised
     \<lparr>signup_email = ''a@x.com'', signup_username = ''zed'', signup_password = ''pw2''\<rparr>
     demo_world)) = 500"
proof -
  have h: "list_ex (\<lambda>r. email r = signup_email
               \<lparr>signup_email = ''a@x.com'', signup_username = ''zed'', signup_password = ''pw2''\<rparr> \<and>
             auth_provider r = ''email'') (users demo_world)"
    by (simp add: demo_world_def)
  from signup_duplicate_email_stops_at_with_statement [OF h, of demo_env] h
  show ?thesis by (simp add: http_status_def)
qed

text \<open>
  Claim C5, as the code runs. For every signup request whose email and username are both
  unused among email-provider records, \<open>signup\<close> raises at the \<^verbatim>\<open>with\<close> statement: no
  record is inserted, no user identifier is returned, and the framework answers 500, not
  201. The claim's outcome is that of the block (lemma \<open>signup_block_unused\<close>).
\<close>

theorem signup_unused_stops_at_with_statement:
  assumes "\<not> list_ex (\<lambda>r. email r = signup_email request \<and> auth_provider r = ''email'') (users w)"
    and "\<not> list_ex (\<lambda>r. username r = signup_username request \<and> auth_provider r = ''email'')
             (users w)"
  shows "signup E initialised request w = (Inl NotAContextManager, w) \<and>
         users (snd (signup E initialised request w)) = users w \<and>
         http_status 201 (fst (signup E initialised request w)) = 500"
  by (simp add: signup_raises [OF initialised_db_client] http_status_def)

theorem signup_unused_stops_at_with_statement_witness:
  "\<not> list_ex (\<lambda>r. email r = ''b@x.com'' \<and> auth_provider r = ''email'') (users demo_world) \<and>
   \<not> list_ex (\<lambda>r. username r = ''zed'' \<and> auth_provider r = ''email'') (users demo_world) \<and>
   signup demo_env initialised
     \<lparr>signup_email = ''b@x.com'', signup_username = ''zed'', signup_password = ''pw2''\<rparr>
     demo_world = (Inl NotAContextManager, demo_world) \<and>
   http_status 201 (fst (signup demo_env initialised
     \<lparr>signup_email = ''b@x.com'', signup_username = ''zed'', signup_password = ''pw2''\<rparr>
     demo_world)) = 500"
proof -
  let ?rq = "\<lparr>signup_email = ''b@x.com'', signup_username = ''zed'', signup_password = ''pw2''\<rparr>"
  have h1: "\<not> list_ex (\<lambda>r. email r = signup_email ?rq \<and> auth_provider r = ''email'')
               (users demo_world)"
    by (simp add: demo_world_def)
  have h2: "\<not> list_ex (\<lambda>r. username r = signup_username ?rq \<and> auth_provider r = ''email'')
               (users demo_world)"
    by (simp add: demo_world_def)
  from signup_unused_stops_at_with_statement [OF h1 h2, of demo_env] h1 h2
  show ?thesis by (simp add: http_status_def)
qed

text \<open>
  Claim C6, as the code runs. When the exchange succeeds and the verified assertion has no
  email claim, \<open>continue_with_google\<close> raises at \<^verbatim>\<open>with supabase_client() as client\<close>
  (line 115); the only events are the POST and the verification. No line of the handler
  tests the email: the block itself, handed a client, looks the \<^verbatim>\<open>None\<close> email up and then
  raises \<^verbatim>\<open>AttributeError\<close> at \<^verbatim>\<open>email.split\<close> (lemma \<open>google_block_no_email\<close>).
\<close>

theorem oauth_without_email_stops_at_with_statement:
  assumes "http_post E token_request_uri (token_request_data E request) = Response s (Some d)"
    and "200 \<le> s" and "s < 300"
    and "map_of d ''id_token'' = Some v" and "v \<noteq> []"
    and "verify_oauth2_token E v (GOOGLE_OAUTH_CLIENT_ID E) = Inr id_info"
    and "map_of id_info ''email'' = None"
  shows "continue_with_google E request w =
           (Inl NotAContextManager,
            w\<lparr>trace := trace w @ [HttpPost token_request_uri, AssertionVerified v]\<rparr>)"
  using assms(1-6) by (rule google_after_verification)

theorem oauth_without_email_stops_at_with_statement_witness:
  "continue_with_google demo_env_no_email \<lparr>code = ''good-code''\<rparr> demo_world =
     (Inl NotAContextManager,
      demo_world\<lparr>trace := [HttpPost ''https://oauth2.googleapis.com/token'',
                            AssertionVerified ''signed-assertion'']\<rparr>)"
proof -
  have p: "http_post demo_env_no_email token_request_uri
             (token_request_data demo_env_no_email \<lparr>code = ''good-code''\<rparr>) =
           Response 200 (Some [(''id_token'', ''signed-assertion'')])"
    by (simp add: demo_env_no_email_def demo_env_def token_request_data_def)
  have v: "verify_oauth2_token demo_env_no_email ''signed-assertion''
             (GOOGLE_OAUTH_CLIENT_ID demo_env_no_email) = Inr [(''picture'', ''bob.png'')]"
    by (simp add: demo_env_no_email_def)
  have s1: "(200::nat) \<le> 200" and s2: "(200::nat) < 300"
    by simp_all
  have m: "map_of [(''id_token'', ''signed-assertion'')] ''id_token'' = Some ''signed-assertion''"
    by simp
  have n: "''signed-assertion'' \<noteq> []"
    by simp
  have e: "map_of [(''picture'', ''bob.png'')] ''email'' = None"
    by simp
  from oauth_without_email_stops_at_with_statement [OF p s1 s2 m n v e, of demo_world]
  show ?thesis
    by (simp add: token_request_uri_def demo_world_def)
qed

text \<open>
  Claim C7, as the code runs. When the exchange succeeds and the verified assertion carries
  an email, \<open>continue_with_google\<close> raises at the \<^verbatim>\<open>with\<close> statement: the user table
  is unchanged (the first login creates no record), no token is minted, the only events
  are the POST and the verification. The claim's outcomes are those of the block (lemmas
  \<open>google_block_first_login\<close>, \<open>google_block_later_login\<close>).
\<close>

theorem oauth_login_stops_at_with_statement:
  assumes "http_post E token_request_uri (token_request_data E request) = Response s (Some d)"
    and "200 \<le> s" and "s < 300"
    and "map_of d ''id_token'' = Some v" and "v \<noteq> []"
    and "verify_oauth2_token E v (GOOGLE_OAUTH_CLIENT_ID E) = Inr id_info"
    and "map_of id_info ''email'' = Some e"
  shows "fst (continue_with_google E request w) = Inl NotAContextManager \<and>
         users (snd (continue_with_google E request w)) = users w \<and>
         trace (snd (continue_with_google E request w)) =
           trace w @ [HttpPost token_request_uri, AssertionVerified v]"
  by (simp add: google_after_verification [OF assms(1-6)])

theorem oauth_login_stops_at_with_statement_witness:
  "fst (continue_with_google demo_env \<lparr>code = ''good-code''\<rparr> demo_world) =
     Inl NotAContextManager \<and>
   users (snd (continue_with_google demo_env \<lparr>code = ''good-code''\<rparr> demo_world)) =
     users demo_world \<and>
   trace (snd (continue_with_google demo_env \<lparr>code = ''good-code''\<rparr> demo_world)) =
     [HttpPost ''https://oauth2.googleapis.com/token'', AssertionVerified ''signed-assertion'']"
proof -
  have p: "http_post demo_env token_request_uri
             (token_request_data demo_env \<lparr>code = ''good-code''\<rparr>) =
           Response 200 (Some [(''id_token'', ''signed-assertion'')])"
    by (simp add: demo_env_def token_request_data_def)
  have v: "verify_oauth2_token demo_env ''signed-assertion'' (GOOGLE_OAUTH_CLIENT_ID demo_env) =
             Inr [(''email'', ''bob@x.com''), (''picture'', ''bob.png'')]"
    by (simp add: demo_env_def)
  have s1: "(200::nat) \<le> 200" and s2: "(200::nat) < 300"
    by simp_all
  have m: "map_of [(''id_token'', ''signed-assertion'')] ''id_token'' = Some ''signed-assertion''"
    by simp
  have n: "''signed-assertion'' \<noteq> []"
    by simp
  have e: "map_of [(''email'', ''bob@x.com''), (''picture'', ''bob.png'')] ''email'' =
             Some ''bob@x.com''"
    by simp
  from oauth_login_stops_at_with_statement [OF p s1 s2 m n v e, of demo_world]
  show ?thesis
    by (simp add: token_request_uri_def demo_world_def)
qed

text \<open>
  Claim C8. For every OAuth login in which the call to the token endpoint does not succeed
  (the request fails, or the status is outside 200 to 299), \<open>continue_with_google\<close> raises
  httpx's error (the spec's \<open>ProviderExchangeFailed\<close>); the user table is unchanged and the
  POST is the only event: no assertion is verified, no record read, inserted or touched,
  no token minted.
\<close>

theorem oauth_exchange_failure:
  assumes failed:
    "\<not> exchange_succeeds (http_post E token_request_uri (token_request_data E request))"
  shows "\<exists>e. continue_with_google E request w =
               (Inl e, w\<lparr>trace := trace w @ [HttpPost token_request_uri]\<rparr>) \<and>
             ProviderExchangeFailed e"
  using failed by (rule google_exchange_failed)

theorem oauth_exchange_failure_witness:
  "continue_with_google demo_env \<lparr>code = ''bad-code''\<rparr> demo_world =
     (Inl (HTTPStatusError 400),
      demo_world\<lparr>trace := [HttpPost ''https://oauth2.googleapis.com/token'']\<rparr>) \<and>
   ProviderExchangeFailed (HTTPStatusError 400) \<and>
   continue_with_google demo_env_offline \<lparr>code = ''good-code''\<rparr> demo_world =
     (Inl RequestError,
      demo_world\<lparr>trace := [HttpPost ''https://oauth2.googleapis.com/token'']\<rparr>) \<and>
   ProviderExchangeFailed RequestError"
proof -
  have h1: "\<not> exchange_succeeds (http_post demo_env token_request_uri
              (token_request_data demo_env \<lparr>code = ''bad-code''\<rparr>))"
    by (simp add: demo_env_def token_request_data_def exchange_succeeds_def)
  have h2: "\<not> exchange_succeeds (http_post demo_env_offline token_request_uri
              (token_request_data demo_env_offline \<lparr>code = ''good-code''\<rparr>))"
    by (simp add: demo_env_offline_def exchange_succeeds_def)
  from oauth_exchange_failure [OF h1, of demo_world] obtain e1
    where a: "continue_with_google demo_env \<lparr>code = ''bad-code''\<rparr> demo_world =
                (Inl e1, demo_world\<lparr>trace := trace demo_world @ [HttpPost token_request_uri]\<rparr>)"
      and a': "ProviderExchangeFailed e1"
    by blast
  from oauth_exchange_failure [OF h2, of demo_world] obtain e2
    where b: "continue_with_google demo_env_offline \<lparr>code = ''good-code''\<rparr> demo_world =
                (Inl e2, demo_world\<lparr>trace := trace demo_world @ [HttpPost token_request_uri]\<rparr>)"
      and b': "ProviderExchangeFailed e2"
    by blast
  have c1: "fst (continue_with_google demo_env \<lparr>code = ''bad-code''\<rparr> demo_world) =
              Inl (HTTPStatusError 400)"
    by code_simp
  have c2: "fst (continue_with_google demo_env_offline \<lparr>code = ''good-code''\<rparr> demo_world) =
              Inl RequestError"
    by code_simp
  from a c1 have "e1 = HTTPStatusError 400" by simp
  moreover from b c2 have "e2 = RequestError" by simp
  ultimately show ?thesis
    using a a' b b' by (simp add: token_request_uri_def demo_world_def)
qed

text \<open>
  No store client comes into being in any of the three handlers: the generator returned
  by \<open>supabase_client\<close> is never started, so \<^verbatim>\<open>create_client\<close> does not run, and none of
  the handlers returns a response.
\<close>

lemma store_client_is_never_created:
  "fst (signup E initialised sreq w) = Inl NotAContextManager \<and>
   trace (snd (signup E initialised sreq w)) = trace w \<and>
   fst (login E lreq w) = Inl NotAContextManager \<and>
   trace (snd (login E lreq w)) = trace w \<and>
   (\<exists>e. fst (continue_with_google E greq w) = Inl e) \<and>
   (ClientCreated \<in> set (trace (snd (continue_with_google E greq w)))) =
     (ClientCreated \<in> set (trace w))"
proof -
  from google_never_returns [of E greq w] obtain e w1
    where g: "continue_with_google E greq w = (Inl e, w1)"
      and t: "trace w1 = trace w @ [HttpPost token_request_uri] \<or>
              (\<exists>v. trace w1 = trace w @ [HttpPost token_request_uri, AssertionVerified v])"
    by blast
  from t have "(ClientCreated \<in> set (trace w1)) = (ClientCreated \<in> set (trace w))"
    by auto
  with g show ?thesis
    by (simp add: signup_raises [OF initialised_db_client] login_raises)
qed

text \<open>
  The \<^verbatim>\<open>with\<close> statement itself is scoped: around a context manager whose entry creates a
  client and whose exit releases it, a block that leaves nothing open leaves nothing open
  after the statement either, whether the block returns or raises.
\<close>

lemma with_stmt_scoped_release:
  assumes enter: "enter w = (Inr c, w\<lparr>trace := trace w @ [ClientCreated]\<rparr>)"
    and block: "block c (w\<lparr>trace := trace w @ [ClientCreated]\<rparr>) = (r, w2)"
    and during: "trace w2 = trace w @ [ClientCreated] @ evs"
    and balanced: "left_open evs = 0"
    and exit: "exit w2 = (Inr (), w2\<lparr>trace := trace w2 @ [ClientReleased]\<rparr>)"
  shows "fst (with_stmt (ContextManager enter exit) block w) = r \<and>
         trace (snd (with_stmt (ContextManager enter exit) block w)) =
           trace w @ ([ClientCreated] @ evs @ [ClientReleased]) \<and>
         left_open ([ClientCreated] @ evs @ [ClientReleased]) = 0"
proof -
  have "with_stmt (ContextManager enter exit) block w =
          (r, w2\<lparr>trace := trace w2 @ [ClientReleased]\<rparr>)"
    by (simp add: with_stmt_def enter block exit)
  moreover from balanced have "left_open ([ClientCreated] @ evs @ [ClientReleased]) = 0"
    by (simp add: left_open_def)
  ultimately show ?thesis
    by (simp add: during)
qed



end
